theory Spec2Isabelle
  imports Complex_Main "HOL-Library.Char_ord" "HOL-Library.List_Lexorder"
begin

section \<open>Data model of \<^verbatim>\<open>forcast.py\<close>\<close>

text \<open>
  The script works on a pandas data frame with the columns \<^verbatim>\<open>Area\<close>,
  \<^verbatim>\<open>Date\<close>, four series columns and two confidence bound columns. A frame is
  modelled by the list of its rows in index order, a row by a record with one field per
  column.

  A numeric cell is a float or the missing value marker: \<open>None\<close> stands for NaN, and
  \<^verbatim>\<open>notna\<close> is \<open>\<noteq> None\<close>. The script never calculates with the numbers, it
  only copies them and tests them for NaN.

  A cell of the \<^verbatim>\<open>Date\<close> column after \<^verbatim>\<open>pd.to_datetime\<close> is a timestamp
  (here: an integer, the position on the time axis) or \<^verbatim>\<open>NaT\<close>, which is what
  \<^verbatim>\<open>pd.to_datetime\<close> makes of an empty cell.
\<close>

datatype timestamp = NaT | Ts int

type_synonym number = "real option"

record 'd id_vars =
  Area :: string
  Date :: 'd
  Lower_95_CI :: number
  Upper_95_CI :: number

record 'd row = "'d id_vars" +
  Actual :: number
  Prophet_Train_Fitted :: number
  Prophet_Forecast :: number
  Auto_arima_forcasted :: number

record long_row = "timestamp id_vars" +
  Series :: string
  Value :: number

type_synonym table = "timestamp row list"

definition notna :: "number \<Rightarrow> bool" where
  "notna v = (v \<noteq> None)"

subsection \<open>Comparisons and reductions of pandas on timestamps\<close>

text \<open>
  \<^verbatim>\<open>Series < value\<close> is False wherever one side is NaT. \<^verbatim>\<open>Series.min()\<close> and
  \<^verbatim>\<open>Series.max()\<close> skip NaT and give NaT when nothing is left.
\<close>

fun ts_less :: "timestamp \<Rightarrow> timestamp \<Rightarrow> bool" where
  "ts_less (Ts a) (Ts b) = (a < b)"
| "ts_less _ _ = False"

fun valid_times :: "timestamp list \<Rightarrow> int list" where
  "valid_times [] = []"
| "valid_times (NaT # ds) = valid_times ds"
| "valid_times (Ts d # ds) = d # valid_times ds"

definition series_min :: "timestamp list \<Rightarrow> timestamp" where
  "series_min ds = (case valid_times ds of [] \<Rightarrow> NaT | t # ts \<Rightarrow> Ts (fold min ts t))"

definition series_max :: "timestamp list \<Rightarrow> timestamp" where
  "series_max ds = (case valid_times ds of [] \<Rightarrow> NaT | t # ts \<Rightarrow> Ts (fold max ts t))"

section \<open>Transformer: lines 49 to 75 and 94\<close>

text \<open>\<^verbatim>\<open>df_filtered = df[df['Area'] == selected_area].copy()\<close>\<close>

definition df_filtered :: "table \<Rightarrow> string \<Rightarrow> table" where
  "df_filtered df selected_area = filter (\<lambda>r. Area r = selected_area) df"

text \<open>
  \<^verbatim>\<open>forecast_start_date_series = df_filtered.loc[df_filtered['Prophet_Forecast'].notna(), 'Date']\<close>
\<close>

definition forecast_start_date_series :: "table \<Rightarrow> timestamp list" where
  "forecast_start_date_series dff = map Date (filter (\<lambda>r. notna (Prophet_Forecast r)) dff)"

text \<open>
  \<^verbatim>\<open>previous_dates = df_filtered[df_filtered['Date'] < min_forecast_date]['Date']\<close>
\<close>

definition previous_dates :: "table \<Rightarrow> timestamp \<Rightarrow> timestamp list" where
  "previous_dates dff min_forecast_date =
     map Date (filter (\<lambda>r. ts_less (Date r) min_forecast_date) dff)"

text \<open>
  Lines 55 to 66. The result \<open>None\<close> is Python's \<^verbatim>\<open>None\<close>; \<open>Some NaT\<close> is a
  date that is NaT.
\<close>

definition forecast_start_date :: "table \<Rightarrow> timestamp option" where
  "forecast_start_date dff =
     (if forecast_start_date_series dff \<noteq> [] then
        (let min_forecast_date = series_min (forecast_start_date_series dff) in
         if previous_dates dff min_forecast_date \<noteq> []
         then Some (series_max (previous_dates dff min_forecast_date))
         else Some min_forecast_date)
      else None)"

text \<open>
  Lines 69 to 75. \<^verbatim>\<open>melt\<close> keeps the id columns of each row and makes one row
  per value column: first all rows for the first value column, then all rows for the
  second, and so on. A value column is its name and the field it reads.
\<close>

definition melt_cols :: "(string \<times> (timestamp row \<Rightarrow> number)) list" where
  "melt_cols =
     [(''Actual'', Actual),
      (''Prophet_Train_Fitted'', Prophet_Train_Fitted),
      (''Prophet_Forecast'', Prophet_Forecast),
      (''Auto_arima_forcasted'', Auto_arima_forcasted)]"

definition melt_row :: "string \<times> (timestamp row \<Rightarrow> number) \<Rightarrow> timestamp row \<Rightarrow> long_row" where
  "melt_row c r =
     \<lparr>Area = Area r, Date = Date r, Lower_95_CI = Lower_95_CI r, Upper_95_CI = Upper_95_CI r,
      Series = fst c, Value = snd c r\<rparr>"

definition melt :: "(string \<times> (timestamp row \<Rightarrow> number)) list \<Rightarrow> table \<Rightarrow> long_row list" where
  "melt value_vars dff = concat (map (\<lambda>c. map (melt_row c) dff) value_vars)"

definition df_melted :: "table \<Rightarrow> long_row list" where
  "df_melted dff = melt melt_cols dff"

text \<open>\<^verbatim>\<open>df_ci = df_filtered.dropna(subset=['Prophet_Forecast'])\<close>\<close>

definition df_ci :: "table \<Rightarrow> table" where
  "df_ci dff = filter (\<lambda>r. notna (Prophet_Forecast r)) dff"

section \<open>Loader: lines 8 to 24\<close>

text \<open>
  The exceptions the loader can meet. All of them are subclasses of Python's
  \<^verbatim>\<open>Exception\<close>, so \<^verbatim>\<open>except Exception\<close> catches each of them, and
  \<^verbatim>\<open>except UnicodeDecodeError\<close> catches the first only.
\<close>

datatype py_exception =
    UnicodeDecodeError
  | FileNotFoundError
  | PermissionError
  | EmptyDataError
  | ParserError
  | KeyError string
  | ValueError

datatype encoding = Utf8 | Latin1

text \<open>
  A frame as \<^verbatim>\<open>pd.read_csv\<close> returns it: the names of its columns and its rows.
  A field of a row means something only when its name is among the columns. The
  \<^verbatim>\<open>Date\<close> cells are still unparsed, of a type \<open>'d\<close> left open.
  \<^verbatim>\<open>pd.DataFrame()\<close> has no columns and no rows, and \<^verbatim>\<open>df.empty\<close> holds
  when the frame has no columns or no rows.
\<close>

record 'd frame =
  columns :: "string list"
  rows :: "'d row list"

definition DataFrame :: "'d frame" where
  "DataFrame = \<lparr>columns = [], rows = []\<rparr>"

definition empty :: "'d frame \<Rightarrow> bool" where
  "empty df = (columns df = [] \<or> rows df = [])"

text \<open>\<^verbatim>\<open>df['Date']\<close>: the column, or a \<^verbatim>\<open>KeyError\<close> when there is none.\<close>

definition get_Date :: "'d frame \<Rightarrow> py_exception + 'd list" where
  "get_Date df =
     (if ''Date'' \<in> set (columns df) then Inr (map Date (rows df)) else Inl (KeyError ''Date''))"

text \<open>
  \<^verbatim>\<open>df['Date'] = values\<close>: the assignment aligns on the index, so row \<open>i\<close>
  gets the value at \<open>i\<close>, and NaT where the values have no such index. The column is
  there already, so the columns stay as they are.
\<close>

definition with_Date :: "'d row \<Rightarrow> timestamp \<Rightarrow> timestamp row" where
  "with_Date r d =
     \<lparr>Area = Area r, Date = d, Lower_95_CI = Lower_95_CI r, Upper_95_CI = Upper_95_CI r,
      Actual = Actual r, Prophet_Train_Fitted = Prophet_Train_Fitted r,
      Prophet_Forecast = Prophet_Forecast r, Auto_arima_forcasted = Auto_arima_forcasted r\<rparr>"

definition set_Date :: "'d frame \<Rightarrow> timestamp list \<Rightarrow> timestamp frame" where
  "set_Date df ds =
     \<lparr>columns = columns df,
      rows = map (\<lambda>(i, r). with_Date r (if i < length ds then ds ! i else NaT))
               (enumerate 0 (rows df))\<rparr>"

text \<open>
  Lines 22 to 24, reached after either read succeeded. An exception of
  \<^verbatim>\<open>df['Date']\<close> or of \<^verbatim>\<open>pd.to_datetime\<close> is outside both \<^verbatim>\<open>try\<close>
  blocks. The second component of a result lists the messages shown with
  \<^verbatim>\<open>st.error\<close>.
\<close>

definition convert_Date ::
  "('d list \<Rightarrow> py_exception + timestamp list) \<Rightarrow> 'd frame
     \<Rightarrow> py_exception + (timestamp frame \<times> py_exception list)" where
  "convert_Date to_datetime df =
     (case get_Date df of
        Inl e \<Rightarrow> Inl e
      | Inr col \<Rightarrow>
          (case to_datetime col of
             Inl e \<Rightarrow> Inl e
           | Inr ds \<Rightarrow> Inr (set_Date df ds, [])))"

text \<open>
  \<^verbatim>\<open>load_data\<close>. The two library functions are parameters: \<open>read_csv\<close> says for
  each path and encoding what \<^verbatim>\<open>pd.read_csv\<close> does there (it raises or it gives a
  frame), \<open>to_datetime\<close> says what \<^verbatim>\<open>pd.to_datetime\<close> does on a column.
  \<open>Inl e\<close> is the exception \<open>e\<close> leaving \<^verbatim>\<open>load_data\<close>. The message of
  \<^verbatim>\<open>st.error\<close> is kept as the exception whose details it prints.
\<close>

definition load_data ::
  "(string \<Rightarrow> encoding \<Rightarrow> py_exception + 'd frame)
     \<Rightarrow> ('d list \<Rightarrow> py_exception + timestamp list)
     \<Rightarrow> string \<Rightarrow> py_exception + (timestamp frame \<times> py_exception list)" where
  "load_data read_csv to_datetime file_path =
     (case read_csv file_path Utf8 of
        Inr df \<Rightarrow> convert_Date to_datetime df
      | Inl UnicodeDecodeError \<Rightarrow>
          (case read_csv file_path Latin1 of
             Inr df \<Rightarrow> convert_Date to_datetime df
           | Inl e \<Rightarrow> Inr (DataFrame, [e]))
      | Inl e \<Rightarrow> Inl e)"

section \<open>Selector: lines 36 to 43\<close>

text \<open>
  \<^verbatim>\<open>Series.unique()\<close> keeps the first occurrence of each value, in order of
  appearance; \<^verbatim>\<open>sorted\<close> on strings is the lexicographic order on code points.
\<close>

fun unique :: "'a list \<Rightarrow> 'a list" where
  "unique [] = []"
| "unique (x # xs) = x # unique (filter (\<lambda>y. y \<noteq> x) xs)"

definition all_areas :: "table \<Rightarrow> string list" where
  "all_areas df = sort (unique (map Area df))"

text \<open>
  \<^verbatim>\<open>st.sidebar.selectbox(label, options=all_areas, index=0)\<close>. The widget returns
  \<^verbatim>\<open>None\<close> when it has no options. Otherwise it returns the option the user has
  picked, and the option at \<open>index\<close> as long as the user has picked none (or the pick
  is not one of the options any more). The pick is the input \<open>choice\<close>.
\<close>

definition selectbox :: "string list \<Rightarrow> nat \<Rightarrow> nat option \<Rightarrow> string option" where
  "selectbox options index choice =
     (if options = [] then None
      else (case choice of
              None \<Rightarrow> Some (options ! index)
            | Some i \<Rightarrow> Some (options ! (if i < length options then i else index))))"

definition selected_area :: "table \<Rightarrow> nat option \<Rightarrow> string option" where
  "selected_area df choice = selectbox (all_areas df) 0 choice"

section \<open>Renderer: lines 80 to 135\<close>

text \<open>
  The encoding of the line layer. The colour channel is the field \<^verbatim>\<open>Series\<close>, so
  the points are grouped by it: one line for each value of \<^verbatim>\<open>Series\<close> in the data,
  through the points with that value. The stroke dash is \<^verbatim>\<open>[5, 5]\<close> where
  \<^verbatim>\<open>Series\<close> is one of the two names of the predicate and \<^verbatim>\<open>[1, 0]\<close> elsewhere.
\<close>

definition strokeDash :: "string \<Rightarrow> nat list" where
  "strokeDash series =
     (if series \<in> set [''Prophet_Forecast'', ''Auto_arima_forcasted''] then [5, 5] else [1, 0])"

record line =
  line_color :: string
  line_strokeDash :: "nat list"
  line_points :: "long_row list"

definition mark_line :: "long_row list \<Rightarrow> line list" where
  "mark_line data =
     map (\<lambda>s. \<lparr>line_color = s, line_strokeDash = strokeDash s,
                line_points = filter (\<lambda>p. Series p = s) data\<rparr>)
         (unique (map Series data))"

text \<open>
  A layered chart is the list of its layers in drawing order: \<^verbatim>\<open>a + b\<close> draws
  \<^verbatim>\<open>b\<close> over \<^verbatim>\<open>a\<close>. The band is an area over the rows it is given, the
  line layer is the lines that \<^verbatim>\<open>mark_line\<close> draws, the marker is a rule at a date.
\<close>

datatype layer =
    Ci_band table
  | Lines "line list"
  | V_line timestamp

text \<open>Lines 116 to 129.\<close>

definition chart :: "table \<Rightarrow> layer list" where
  "chart dff =
     (case forecast_start_date dff of
        Some d \<Rightarrow> [Ci_band (df_ci dff), Lines (mark_line (df_melted dff)), V_line d]
      | None \<Rightarrow> [Ci_band (df_ci dff), Lines (mark_line (df_melted dff))])"

section \<open>The script: lines 28 to 135\<close>

datatype element =
    St_error py_exception
  | Title
  | Warning
  | Altair_chart "layer list"
  | Dataframe table

text \<open>
  What the page shows for a loaded frame. An empty string is false in Python, as
  \<^verbatim>\<open>None\<close> is.
\<close>

definition page :: "timestamp frame \<Rightarrow> nat option \<Rightarrow> element list" where
  "page df choice =
     (if \<not> empty df then
        (case selected_area (rows df) choice of
           None \<Rightarrow> [Title, Warning]
         | Some a \<Rightarrow>
             if a = [] then [Title, Warning]
             else [Title,
                   Altair_chart (chart (df_filtered (rows df) a)),
                   Dataframe (df_filtered (rows df) a)])
      else [])"

text \<open>
  The script from line 28 on: an exception that leaves \<^verbatim>\<open>load_data\<close> ends the
  run; otherwise the page shows the error messages of the loader, then the rest.
\<close>

definition FILE_NAME :: string where
  "FILE_NAME = ''Prophet_All_Areas_Forecast.xlsx''"

definition script ::
  "(string \<Rightarrow> encoding \<Rightarrow> py_exception + 'd frame)
     \<Rightarrow> ('d list \<Rightarrow> py_exception + timestamp list)
     \<Rightarrow> nat option \<Rightarrow> py_exception + element list" where
  "script read_csv to_datetime choice =
     (case load_data read_csv to_datetime FILE_NAME of
        Inl e \<Rightarrow> Inl e
      | Inr (df, errors) \<Rightarrow> Inr (map St_error errors @ page df choice))"

section \<open>The transformer on a store of frames\<close>

text \<open>
  The frames of the script are objects. The store lists them, and a reference to a frame
  is its position in the store. Every call of pandas in lines 49 to 94 (the selection by
  a mask, \<^verbatim>\<open>copy\<close>, \<^verbatim>\<open>melt\<close>, \<^verbatim>\<open>dropna\<close> without
  \<^verbatim>\<open>inplace\<close>) reads frames and makes a new one; none of them, and no statement
  of these lines, assigns into a frame that is there. \<^verbatim>\<open>df\<close> is the reference of
  the loaded table. The result holds the references the script keeps in
  \<^verbatim>\<open>df_filtered\<close>, \<^verbatim>\<open>df_melted\<close> and \<^verbatim>\<open>df_ci\<close>, and the value of
  \<^verbatim>\<open>forecast_start_date\<close>.
\<close>

datatype object = Wide table | Long "long_row list"

type_synonym heap = "object list"

definition new :: "heap \<Rightarrow> object \<Rightarrow> heap \<times> nat" where
  "new h obj = (h @ [obj], length h)"

definition wide_at :: "heap \<Rightarrow> nat \<Rightarrow> table" where
  "wide_at h p = (if p < length h then (case h ! p of Wide t \<Rightarrow> t | Long _ \<Rightarrow> []) else [])"

definition long_at :: "heap \<Rightarrow> nat \<Rightarrow> long_row list" where
  "long_at h p = (if p < length h then (case h ! p of Long t \<Rightarrow> t | Wide _ \<Rightarrow> []) else [])"

record transformed =
  ref_df_filtered :: nat
  val_forecast_start_date :: "timestamp option"
  ref_df_melted :: nat
  ref_df_ci :: nat

definition transformer :: "heap \<Rightarrow> nat \<Rightarrow> string \<Rightarrow> heap \<times> transformed" where
  "transformer h df area =
     (let (h1, selection) = new h (Wide (df_filtered (wide_at h df) area));
          (h2, dff) = new h1 (Wide (wide_at h1 selection));
          start = forecast_start_date (wide_at h2 dff);
          (h3, melted) = new h2 (Long (df_melted (wide_at h2 dff)));
          (h4, ci) = new h3 (Wide (df_ci (wide_at h3 dff)))
      in (h4, \<lparr>ref_df_filtered = dff, val_forecast_start_date = start,
                ref_df_melted = melted, ref_df_ci = ci\<rparr>))"

definition contents :: "heap \<Rightarrow> transformed \<Rightarrow> table \<times> timestamp option \<times> long_row list \<times> table" where
  "contents h out =
     (wide_at h (ref_df_filtered out), val_forecast_start_date out,
      long_at h (ref_df_melted out), wide_at h (ref_df_ci out))"

section \<open>The spec's words for the forecast start date\<close>

text \<open>
  The proper dates of the rows with a forecast, and the proper dates strictly before a
  given one. The spec speaks of the maximum of the second set, taken before the
  minimum of the first.
\<close>

definition forecast_dates :: "table \<Rightarrow> int set" where
  "forecast_dates dff = {d. \<exists>r \<in> set dff. notna (Prophet_Forecast r) \<and> Date r = Ts d}"

definition dates_before :: "table \<Rightarrow> int \<Rightarrow> int set" where
  "dates_before dff m = {d. \<exists>r \<in> set dff. Date r = Ts d \<and> d < m}"

section \<open>An example table\<close>

text \<open>
  North has actual values at the dates 1 and 2 and forecasts at 3 and 4. South has one
  row, a forecast. West has one row and no forecast.
\<close>

definition example_row ::
  "string \<Rightarrow> timestamp \<Rightarrow> number \<Rightarrow> number \<Rightarrow> number \<Rightarrow> number \<Rightarrow> timestamp row" where
  "example_row a d act fc lo hi =
     \<lparr>Area = a, Date = d, Lower_95_CI = lo, Upper_95_CI = hi,
      Actual = act, Prophet_Train_Fitted = act, Prophet_Forecast = fc,
      Auto_arima_forcasted = fc\<rparr>"

definition example_table :: table where
  "example_table =
     [example_row ''North'' (Ts 1) (Some 10) None None None,
      example_row ''South'' (Ts 3) None (Some 7) (Some 6) (Some 8),
      example_row ''North'' (Ts 2) (Some 12) None None None,
      example_row ''West'' (Ts 1) (Some 5) None None None,
      example_row ''North'' (Ts 3) None (Some 13) (Some 11) (Some 15),
      example_row ''North'' (Ts 4) None (Some 15) (Some 12) (Some 18)]"

definition north :: table where
  "north =
     [example_row ''North'' (Ts 1) (Some 10) None None None,
      example_row ''North'' (Ts 2) (Some 12) None None None,
      example_row ''North'' (Ts 3) None (Some 13) (Some 11) (Some 15),
      example_row ''North'' (Ts 4) None (Some 15) (Some 12) (Some 18)]"

definition south :: table where
  "south = [example_row ''South'' (Ts 3) None (Some 7) (Some 6) (Some 8)]"

definition west :: table where
  "west = [example_row ''West'' (Ts 1) (Some 5) None None None]"

definition example_frame :: "timestamp frame" where
  "example_frame =
     \<lparr>columns = [''Area'', ''Date'', ''Actual'', ''Prophet_Train_Fitted'', ''Prophet_Forecast'',
                  ''Auto_arima_forcasted'', ''Lower_95_CI'', ''Upper_95_CI''],
      rows = example_table\<rparr>"

subsection \<open>Example files\<close>

text \<open>
  A file system with a few files, told by what \<^verbatim>\<open>pd.read_csv\<close> does on each;
  every other path is a missing file. The date parser knows two dates and the empty
  cell and raises on anything else.
\<close>

definition column_names :: "string list" where
  "column_names =
     [''Area'', ''Date'', ''Actual'', ''Prophet_Train_Fitted'', ''Prophet_Forecast'',
      ''Auto_arima_forcasted'', ''Lower_95_CI'', ''Upper_95_CI'']"

definition raw_row :: "string \<Rightarrow> string \<Rightarrow> string row" where
  "raw_row a d =
     \<lparr>Area = a, Date = d, Lower_95_CI = None, Upper_95_CI = None,
      Actual = Some 10, Prophet_Train_Fitted = Some 10, Prophet_Forecast = None,
      Auto_arima_forcasted = None\<rparr>"

definition example_read_csv :: "string \<Rightarrow> encoding \<Rightarrow> py_exception + string frame" where
  "example_read_csv file_path enc =
     (if file_path = ''good.csv'' then
        Inr \<lparr>columns = column_names, rows = [raw_row ''North'' ''2024-01-01'']\<rparr>
      else if file_path = ''header_only.csv'' then
        Inr \<lparr>columns = column_names, rows = []\<rparr>
      else if file_path = ''bad_date.csv'' then
        Inr \<lparr>columns = column_names, rows = [raw_row ''North'' ''soon'']\<rparr>
      else if file_path = ''latin1.csv'' then
        (case enc of
           Utf8 \<Rightarrow> Inl UnicodeDecodeError
         | Latin1 \<Rightarrow> Inr \<lparr>columns = column_names, rows = [raw_row ''North'' ''2024-02-01'']\<rparr>)
      else if file_path = ''Prophet_All_Areas_Forecast.xlsx'' then
        (case enc of Utf8 \<Rightarrow> Inl UnicodeDecodeError | Latin1 \<Rightarrow> Inl ParserError)
      else Inl FileNotFoundError)"

definition example_date :: "string \<Rightarrow> timestamp option" where
  "example_date cell =
     (if cell = [] then Some NaT
      else if cell = ''2024-01-01'' then Some (Ts 0)
      else if cell = ''2024-02-01'' then Some (Ts 31)
      else None)"

definition example_to_datetime :: "string list \<Rightarrow> py_exception + timestamp list" where
  "example_to_datetime col =
     (case those (map example_date col) of None \<Rightarrow> Inl ValueError | Some ds \<Rightarrow> Inr ds)"

section \<open>Properties\<close>

subsection \<open>The example, evaluated\<close>

lemma filtered_north: "df_filtered example_table ''North'' = north"
  by (simp add: df_filtered_def example_table_def north_def example_row_def)

lemma filtered_south: "df_filtered example_table ''South'' = south"
  by (simp add: df_filtered_def example_table_def south_def example_row_def)

lemma filtered_west: "df_filtered example_table ''West'' = west"
  by (simp add: df_filtered_def example_table_def west_def example_row_def)

lemmas eval_transformer =
  forecast_start_date_def forecast_start_date_series_def previous_dates_def
  series_min_def series_max_def notna_def df_ci_def example_row_def

lemma start_north: "forecast_start_date north = Some (Ts 2)"
  by (simp add: north_def eval_transformer)

lemma start_south: "forecast_start_date south = Some (Ts 3)"
  by (simp add: south_def eval_transformer)

lemma start_west: "forecast_start_date west = None"
  by (simp add: west_def eval_transformer)

subsection \<open>Reshaping\<close>

lemma length_melt: "length (melt cs dff) = length cs * length dff"
  by (induction cs) (simp_all add: melt_def)

lemma set_melt: "set (melt cs dff) = (\<Union>c \<in> set cs. melt_row c ` set dff)"
  by (auto simp: melt_def)

lemma nth_melt:
  "i < length cs * length xs \<Longrightarrow>
     melt cs xs ! i = melt_row (cs ! (i div length xs)) (xs ! (i mod length xs))"
proof (induction cs arbitrary: i)
  case Nil
  then show ?case by simp
next
  case (Cons c cs)
  show ?case
  proof (cases "i < length xs")
    case True
    then show ?thesis by (simp add: melt_def nth_append)
  next
    case False
    then have ge: "length xs \<le> i" by simp
    from Cons.prems have pos: "0 < length xs" by (cases xs) auto
    from Cons.prems ge have lt: "i - length xs < length cs * length xs" by simp
    have d: "i div length xs = Suc ((i - length xs) div length xs)"
      using ge pos by (simp add: le_div_geq)
    have m: "i mod length xs = (i - length xs) mod length xs"
      using ge by (simp add: le_mod_geq)
    have "melt (c # cs) xs ! i = melt cs xs ! (i - length xs)"
      using False by (simp add: melt_def nth_append)
    also have "\<dots> =
        melt_row (cs ! ((i - length xs) div length xs)) (xs ! ((i - length xs) mod length xs))"
      using Cons.IH [OF lt] .
    finally show ?thesis by (simp add: d m)
  qed
qed

text \<open>
  C3. Filtering to an area and reshaping gives four long rows for each filtered row:
  with \<open>n\<close> filtered rows there are \<open>4 * n\<close> long rows, and the long row at
  position \<open>i\<close> comes from the filtered row \<open>i mod n\<close> and the series number
  \<open>i div n\<close> of Actual, Prophet_Train_Fitted, Prophet_Forecast and
  Auto_arima_forcasted. It has the name of that series, the value of that series in its
  row, and the Lower_95_CI and Upper_95_CI (and Area and Date) of its row unchanged.
\<close>

theorem melt_four_rows_per_row:
  assumes "dff = df_filtered df a" and "n = length dff"
  shows "length (df_melted dff) = 4 * n \<and>
         map fst melt_cols =
           [''Actual'', ''Prophet_Train_Fitted'', ''Prophet_Forecast'', ''Auto_arima_forcasted''] \<and>
         (\<forall>i < 4 * n.
            Series (df_melted dff ! i) = fst (melt_cols ! (i div n)) \<and>
            Value (df_melted dff ! i) = snd (melt_cols ! (i div n)) (dff ! (i mod n)) \<and>
            Lower_95_CI (df_melted dff ! i) = Lower_95_CI (dff ! (i mod n)) \<and>
            Upper_95_CI (df_melted dff ! i) = Upper_95_CI (dff ! (i mod n)) \<and>
            Area (df_melted dff ! i) = Area (dff ! (i mod n)) \<and>
            Date (df_melted dff ! i) = Date (dff ! (i mod n)))"
proof -
  have len: "length melt_cols = 4" by (simp add: melt_cols_def)
  have "length (df_melted dff) = 4 * n"
    using assms(2) by (simp add: df_melted_def length_melt len)
  moreover have "df_melted dff ! i = melt_row (melt_cols ! (i div n)) (dff ! (i mod n))"
    if "i < 4 * n" for i
    using that assms(2) nth_melt [of i melt_cols dff] by (simp add: df_melted_def len)
  ultimately show ?thesis by (simp add: melt_row_def) (simp add: melt_cols_def)
qed

theorem melt_four_rows_per_row_witness:
  "length (df_melted (df_filtered example_table ''North'')) = 16 \<and>
   Series (df_melted (df_filtered example_table ''North'') ! 10) = ''Prophet_Forecast'' \<and>
   Value (df_melted (df_filtered example_table ''North'') ! 10) = Some 13 \<and>
   Lower_95_CI (df_melted (df_filtered example_table ''North'') ! 10) = Some 11 \<and>
   Upper_95_CI (df_melted (df_filtered example_table ''North'') ! 10) = Some 15"
proof -
  have n: "(4::nat) = length (df_filtered example_table ''North'')"
    by (simp add: filtered_north north_def)
  have i: "(10::nat) div 4 = 2" "(10::nat) mod 4 = 2" "(10::nat) < 4 * 4" by simp_all
  have c: "melt_cols ! 2 = (''Prophet_Forecast'', Prophet_Forecast)"
    by (simp add: melt_cols_def)
  have r: "df_filtered example_table ''North'' ! 2 =
             example_row ''North'' (Ts 3) None (Some 13) (Some 11) (Some 15)"
    by (simp add: filtered_north north_def)
  from melt_four_rows_per_row [OF refl n] i c r show ?thesis
    by (simp add: example_row_def)
qed

text \<open>
  C10. Every row of the filtered table, every long row of the reshape and every row of
  the confidence band subset has the selected area in its Area field.
\<close>

theorem selected_area_on_every_row:
  "(\<forall>r \<in> set (df_filtered df a). Area r = a) \<and>
   (\<forall>p \<in> set (df_melted (df_filtered df a)). Area p = a) \<and>
   (\<forall>r \<in> set (df_ci (df_filtered df a)). Area r = a)"
  by (auto simp: df_filtered_def df_melted_def set_melt melt_row_def df_ci_def)

theorem selected_area_on_every_row_witness:
  "Area (df_filtered example_table ''North'' ! 3) = ''North'' \<and>
   Area (df_melted (df_filtered example_table ''North'') ! 15) = ''North'' \<and>
   Area (df_ci (df_filtered example_table ''North'') ! 1) = ''North''"
proof -
  have "df_filtered example_table ''North'' ! 3 \<in> set (df_filtered example_table ''North'')"
    by (rule nth_mem) (simp add: filtered_north north_def)
  moreover have "df_melted (df_filtered example_table ''North'') ! 15
                   \<in> set (df_melted (df_filtered example_table ''North''))"
    by (rule nth_mem)
      (simp add: filtered_north north_def df_melted_def length_melt melt_cols_def)
  moreover have "df_ci (df_filtered example_table ''North'') ! 1
                   \<in> set (df_ci (df_filtered example_table ''North''))"
    by (rule nth_mem) (simp add: filtered_north north_def eval_transformer)
  ultimately show ?thesis
    using selected_area_on_every_row [of example_table "''North''"] by blast
qed

subsection \<open>The forecast start date\<close>

lemma set_valid_times: "set (valid_times ds) = {d. Ts d \<in> set ds}"
  by (induction ds rule: valid_times.induct) auto

lemma series_min_Min:
  "valid_times ds \<noteq> [] \<Longrightarrow> series_min ds = Ts (Min (set (valid_times ds)))"
  using Min.set_eq_fold [of _ _, where ?'a = int]
  by (cases "valid_times ds") (simp_all add: series_min_def)

lemma series_max_Max:
  "valid_times ds \<noteq> [] \<Longrightarrow> series_max ds = Ts (Max (set (valid_times ds)))"
  using Max.set_eq_fold [of _ _, where ?'a = int]
  by (cases "valid_times ds") (simp_all add: series_max_def)

lemma ts_less_iff: "ts_less x y \<longleftrightarrow> (\<exists>a b. x = Ts a \<and> y = Ts b \<and> a < b)"
  by (cases x; cases y) auto

lemma valid_forecast_dates:
  "set (valid_times (forecast_start_date_series dff)) = forecast_dates dff"
  by (force simp: set_valid_times forecast_start_date_series_def forecast_dates_def)

lemma valid_previous_dates:
  "set (valid_times (previous_dates dff (Ts m))) = dates_before dff m"
  by (force simp: set_valid_times previous_dates_def dates_before_def ts_less_iff)

lemma previous_dates_Nil:
  "previous_dates dff (Ts m) = [] \<longleftrightarrow> dates_before dff m = {}"
  by (auto simp: previous_dates_def dates_before_def ts_less_iff filter_empty_conv)

lemma series_nonempty:
  "forecast_start_date_series dff \<noteq> [] \<longleftrightarrow> (\<exists>r \<in> set dff. notna (Prophet_Forecast r))"
  by (auto simp: forecast_start_date_series_def filter_empty_conv)

lemma min_forecast_date:
  "forecast_dates dff \<noteq> {} \<Longrightarrow>
     series_min (forecast_start_date_series dff) = Ts (Min (forecast_dates dff))"
  using series_min_Min [of "forecast_start_date_series dff"]
  by (simp add: valid_forecast_dates [symmetric])

lemma max_previous_date:
  "dates_before dff m \<noteq> {} \<Longrightarrow>
     series_max (previous_dates dff (Ts m)) = Ts (Max (dates_before dff m))"
  using series_max_Max [of "previous_dates dff (Ts m)"]
  by (simp add: valid_previous_dates [symmetric])

lemma forecast_start_date_cases:
  assumes "forecast_dates dff \<noteq> {}"
  shows "forecast_start_date dff =
           Some (Ts (if dates_before dff (Min (forecast_dates dff)) \<noteq> {}
                     then Max (dates_before dff (Min (forecast_dates dff)))
                     else Min (forecast_dates dff)))"
proof -
  have "forecast_start_date_series dff \<noteq> []"
    using assms valid_forecast_dates [of dff] by auto
  then show ?thesis
    using min_forecast_date [OF assms] max_previous_date [of dff "Min (forecast_dates dff)"]
    by (simp add: forecast_start_date_def previous_dates_Nil)
qed

lemma chart_Some:
  "forecast_start_date dff = Some d \<Longrightarrow>
     chart dff = [Ci_band (df_ci dff), Lines (mark_line (df_melted dff)), V_line d]"
  by (simp add: chart_def)

lemma chart_None:
  "forecast_start_date dff = None \<Longrightarrow> chart dff = [Ci_band (df_ci dff), Lines (mark_line (df_melted dff))]"
  by (simp add: chart_def)

lemma forecast_start_date_None:
  "forecast_start_date dff = None \<longleftrightarrow> (\<forall>r \<in> set dff. Prophet_Forecast r = None)"
  by (auto simp: forecast_start_date_def Let_def series_nonempty notna_def)

text \<open>
  C1, as the code has it. When a row of the filtered table with a proper date has a
  forecast, the forecast start date is the greatest date strictly before the least date
  with a forecast; when the table has no date strictly before that one, the forecast
  start date is the least date with a forecast itself. In both cases the chart gets the
  marker, at the forecast start date.
\<close>

theorem forecast_start_date_amended:
  assumes "dff = df_filtered df a" and "forecast_dates dff \<noteq> {}"
    and "m = Min (forecast_dates dff)"
  shows "forecast_start_date dff =
           Some (Ts (if dates_before dff m \<noteq> {} then Max (dates_before dff m) else m)) \<and>
         chart dff =
           [Ci_band (df_ci dff), Lines (mark_line (df_melted dff)),
            V_line (Ts (if dates_before dff m \<noteq> {} then Max (dates_before dff m) else m))]"
  using forecast_start_date_cases [OF assms(2)] assms(3) by (simp add: chart_Some)

lemma forecast_dates_north: "forecast_dates north = {3, 4}"
  by (auto simp: forecast_dates_def north_def example_row_def notna_def)

lemma dates_before_north: "dates_before north 3 = {1, 2}"
  by (auto simp: dates_before_def north_def example_row_def)

lemma forecast_dates_south: "forecast_dates south = {3}"
  by (auto simp: forecast_dates_def south_def example_row_def notna_def)

lemma dates_before_south: "dates_before south 3 = {}"
  by (auto simp: dates_before_def south_def example_row_def)

theorem forecast_start_date_amended_witness:
  "forecast_dates (df_filtered example_table ''North'') = {3, 4} \<and>
   dates_before (df_filtered example_table ''North'') 3 = {1, 2} \<and>
   forecast_start_date (df_filtered example_table ''North'') = Some (Ts 2) \<and>
   chart (df_filtered example_table ''North'') =
     [Ci_band (df_ci north), Lines (mark_line (df_melted north)), V_line (Ts 2)]"
proof -
  have ne: "forecast_dates north \<noteq> {}" and m: "3 = Min (forecast_dates north)"
    by (simp_all add: forecast_dates_north)
  from forecast_start_date_amended [OF filtered_north [symmetric] ne m] show ?thesis
    by (simp add: filtered_north forecast_dates_north dates_before_north)
qed

text \<open>
  C1 as the spec has it fails for South: its one row has a forecast, the table has no
  earlier date, and still the forecast start date is defined and the marker is drawn.
\<close>

theorem forecast_start_date_counterexample:
  "df_filtered example_table ''South'' = south \<and>
   forecast_start_date_series south = [Ts 3] \<and>
   forecast_dates south = {3} \<and>
   dates_before south 3 = {} \<and>
   forecast_start_date south = Some (Ts 3) \<and>
   chart south = [Ci_band (df_ci south), Lines (mark_line (df_melted south)), V_line (Ts 3)]"
  using filtered_south forecast_dates_south dates_before_south start_south
  by (simp add: chart_Some) (simp add: south_def eval_transformer)

text \<open>
  C9. When the filtered rows have a forecast, the chart has the marker. When moreover no
  row has a date strictly before the least date with a forecast, the marker is at that
  least date (which the code computes with \<^verbatim>\<open>min()\<close>, and which is the least
  element of the proper dates with a forecast whenever there is one).
\<close>

theorem marker_at_first_forecast:
  assumes "dff = df_filtered df a" and "\<exists>r \<in> set dff. notna (Prophet_Forecast r)"
    and "m = series_min (forecast_start_date_series dff)"
  shows "(\<exists>d. forecast_start_date dff = Some d \<and>
              chart dff = [Ci_band (df_ci dff), Lines (mark_line (df_melted dff)), V_line d]) \<and>
         ((\<forall>r \<in> set dff. \<not> ts_less (Date r) m) \<longrightarrow>
            forecast_start_date dff = Some m \<and>
            chart dff = [Ci_band (df_ci dff), Lines (mark_line (df_melted dff)), V_line m]) \<and>
         (forecast_dates dff \<noteq> {} \<longrightarrow> m = Ts (Min (forecast_dates dff)))"
proof -
  have ne: "forecast_start_date_series dff \<noteq> []"
    using assms(2) by (simp add: series_nonempty)
  have prev: "previous_dates dff m = [] \<longleftrightarrow> (\<forall>r \<in> set dff. \<not> ts_less (Date r) m)"
    by (auto simp: previous_dates_def filter_empty_conv)
  have 1: "\<exists>d. forecast_start_date dff = Some d"
    using ne by (simp add: forecast_start_date_def Let_def)
  have 2: "forecast_start_date dff = Some m" if "\<forall>r \<in> set dff. \<not> ts_less (Date r) m"
    using ne that prev assms(3) by (simp add: forecast_start_date_def)
  have 3: "m = Ts (Min (forecast_dates dff))" if "forecast_dates dff \<noteq> {}"
    using that assms(3) by (simp add: min_forecast_date)
  from 1 2 3 show ?thesis by (auto simp: chart_Some)
qed

theorem marker_at_first_forecast_witness:
  "notna (Prophet_Forecast (df_filtered example_table ''South'' ! 0)) \<and>
   series_min (forecast_start_date_series (df_filtered example_table ''South'')) = Ts 3 \<and>
   \<not> ts_less (Date (df_filtered example_table ''South'' ! 0)) (Ts 3) \<and>
   forecast_start_date (df_filtered example_table ''South'') = Some (Ts 3) \<and>
   chart (df_filtered example_table ''South'') =
     [Ci_band (df_ci south), Lines (mark_line (df_melted south)), V_line (Ts 3)]"
proof -
  have h: "\<exists>r \<in> set south. notna (Prophet_Forecast r)"
    by (simp add: south_def example_row_def notna_def)
  have m: "Ts 3 = series_min (forecast_start_date_series south)"
    by (simp add: south_def eval_transformer)
  have e: "\<forall>r \<in> set south. \<not> ts_less (Date r) (Ts 3)"
    by (simp add: south_def example_row_def)
  have "forecast_start_date south = Some (Ts 3) \<and>
        chart south = [Ci_band (df_ci south), Lines (mark_line (df_melted south)), V_line (Ts 3)]"
    using marker_at_first_forecast [OF filtered_south [symmetric] h m] e by blast
  moreover have "notna (Prophet_Forecast (south ! 0))" "\<not> ts_less (Date (south ! 0)) (Ts 3)"
    by (simp_all add: south_def example_row_def notna_def)
  ultimately show ?thesis
    by (simp add: filtered_south m [symmetric])
qed

subsection \<open>The selector\<close>

lemma set_unique: "set (unique xs) = set xs"
  by (induction xs rule: unique.induct) auto

lemma distinct_unique: "distinct (unique xs)"
  by (induction xs rule: unique.induct) (auto simp: set_unique)

lemma all_areas_props:
  "sorted (all_areas t)" "distinct (all_areas t)" "set (all_areas t) = Area ` set t"
  by (simp_all add: all_areas_def distinct_unique set_unique)

lemma all_areas_least:
  assumes "t \<noteq> []"
  shows "all_areas t \<noteq> []" and "\<forall>b \<in> Area ` set t. all_areas t ! 0 \<le> b"
proof -
  show ne: "all_areas t \<noteq> []"
    using assms all_areas_props(3) [of t] by auto
  then obtain x xs where c: "all_areas t = x # xs" by (cases "all_areas t") auto
  with all_areas_props(1) [of t] have "\<forall>b \<in> set (all_areas t). x \<le> b" by auto
  with c show "\<forall>b \<in> Area ` set t. all_areas t ! 0 \<le> b"
    by (simp add: all_areas_props(3) [symmetric])
qed

text \<open>
  C7. For a loaded frame that is not empty, the options of the selector are the distinct
  Area values in ascending order (Python's order on strings: letter by letter by code
  point, a proper prefix first). The selector returns one of these values whatever the
  user does, and the first option, the least Area value, as long as the user has picked
  nothing.
\<close>

theorem selector_returns_an_area:
  assumes "\<not> empty df" and "t = rows df"
  shows "sorted (all_areas t) \<and> distinct (all_areas t) \<and> set (all_areas t) = Area ` set t \<and>
         (\<exists>a \<in> Area ` set t. selected_area t choice = Some a) \<and>
         selected_area t None = Some (all_areas t ! 0) \<and>
         (\<forall>b \<in> Area ` set t. all_areas t ! 0 \<le> b)"
proof -
  have t: "t \<noteq> []" using assms by (simp add: empty_def)
  note l = all_areas_least [OF t]
  have mem: "all_areas t ! i \<in> Area ` set t" if "i < length (all_areas t)" for i
    using nth_mem [OF that] by (simp add: all_areas_props(3))
  have pos: "0 < length (all_areas t)" using l(1) by simp
  have "\<exists>a \<in> Area ` set t. selected_area t choice = Some a"
    using l(1) mem pos by (cases choice) (auto simp: selected_area_def selectbox_def)
  moreover have "selected_area t None = Some (all_areas t ! 0)"
    using l(1) by (simp add: selected_area_def selectbox_def)
  ultimately show ?thesis using l(2) by (simp add: all_areas_props)
qed

lemma areas_example: "all_areas example_table = [''North'', ''South'', ''West'']"
  by (simp add: all_areas_def example_table_def example_row_def less_eq_char_def less_char_def)

theorem selector_returns_an_area_witness:
  "\<not> empty example_frame \<and>
   all_areas (rows example_frame) = [''North'', ''South'', ''West''] \<and>
   selected_area (rows example_frame) None = Some ''North'' \<and>
   selected_area (rows example_frame) (Some 2) = Some ''West'' \<and>
   ''North'' \<le> ''South'' \<and> ''North'' \<le> ''West''"
proof -
  have e: "\<not> empty example_frame"
    by (simp add: empty_def example_frame_def example_table_def)
  have r: "example_table = rows example_frame" by (simp add: example_frame_def)
  have s: "selected_area example_table (Some 2) = Some ''West''"
    by (simp add: selected_area_def selectbox_def areas_example)
  have "Area ` set example_table = {''North'', ''South'', ''West''}"
    by (auto simp: example_table_def example_row_def)
  with selector_returns_an_area [OF e r, of None] s e show ?thesis
    by (simp add: r [symmetric] areas_example)
qed

subsection \<open>The line layer\<close>

lemma unique_replicate_append:
  "0 < n \<Longrightarrow> unique (replicate n x @ ys) = x # unique (filter (\<lambda>y. y \<noteq> x) ys)"
  by (cases n) simp_all

lemma Series_melt:
  "map Series (melt cs dff) = concat (map (\<lambda>c. replicate (length dff) (fst c)) cs)"
  by (induction cs) (simp_all add: melt_def melt_row_def map_replicate_const comp_def)

lemma series_of_df_melted:
  assumes "dff \<noteq> []"
  shows "unique (map Series (df_melted dff)) =
           [''Actual'', ''Prophet_Train_Fitted'', ''Prophet_Forecast'', ''Auto_arima_forcasted'']"
proof -
  have n: "0 < length dff" using assms by simp
  show ?thesis
    using n unique_replicate_append [of "length dff" _ "[]"]
    by (simp add: df_melted_def Series_melt melt_cols_def unique_replicate_append)
qed

lemma line_color_mark_line: "map line_color (mark_line data) = unique (map Series data)"
  by (simp add: mark_line_def comp_def)

lemma chart_layers: "take 2 (chart dff) = [Ci_band (df_ci dff), Lines (mark_line (df_melted dff))]"
  by (simp add: chart_def split: option.split)

text \<open>
  C8. The line layer draws one line for each value of Series in the long rows, coloured
  by that value, through the long rows with that value; for a filtered table with rows
  these are the four series. A line is dashed, \<^verbatim>\<open>[5, 5]\<close>, when its series is
  Prophet_Forecast or Auto_arima_forcasted, and solid, \<^verbatim>\<open>[1, 0]\<close>, otherwise. In
  the chart the line layer comes right after the band, so it is drawn over it.
\<close>

theorem forecast_lines_dashed:
  assumes "dff = df_filtered df a" and "ls = mark_line (df_melted dff)"
  shows "distinct (map line_color ls) \<and>
         set (map line_color ls) = Series ` set (df_melted dff) \<and>
         (dff \<noteq> [] \<longrightarrow>
            map line_color ls =
              [''Actual'', ''Prophet_Train_Fitted'', ''Prophet_Forecast'',
               ''Auto_arima_forcasted'']) \<and>
         (\<forall>l \<in> set ls.
            line_points l = filter (\<lambda>p. Series p = line_color l) (df_melted dff) \<and>
            line_strokeDash l =
              (if line_color l = ''Prophet_Forecast'' \<or> line_color l = ''Auto_arima_forcasted''
               then [5, 5] else [1, 0])) \<and>
         take 2 (chart dff) = [Ci_band (df_ci dff), Lines ls]"
proof -
  have "distinct (map line_color ls)" "set (map line_color ls) = Series ` set (df_melted dff)"
    using assms(2) by (simp_all add: line_color_mark_line distinct_unique set_unique)
  moreover have "map line_color ls =
      [''Actual'', ''Prophet_Train_Fitted'', ''Prophet_Forecast'', ''Auto_arima_forcasted'']"
    if "dff \<noteq> []"
    using that assms(2) by (simp add: line_color_mark_line series_of_df_melted)
  moreover have "\<forall>l \<in> set ls.
      line_points l = filter (\<lambda>p. Series p = line_color l) (df_melted dff) \<and>
      line_strokeDash l =
        (if line_color l = ''Prophet_Forecast'' \<or> line_color l = ''Auto_arima_forcasted''
         then [5, 5] else [1, 0])"
    using assms(2) by (auto simp: mark_line_def strokeDash_def)
  ultimately show ?thesis by (simp add: chart_layers assms(2))
qed

lemma lines_west:
  "map line_strokeDash (mark_line (df_melted west)) = [[1, 0], [1, 0], [5, 5], [5, 5]]"
  by (simp add: mark_line_def df_melted_def melt_def melt_cols_def melt_row_def west_def
      strokeDash_def)

theorem forecast_lines_dashed_witness:
  "df_filtered example_table ''West'' \<noteq> [] \<and>
   map line_color (mark_line (df_melted (df_filtered example_table ''West''))) =
     [''Actual'', ''Prophet_Train_Fitted'', ''Prophet_Forecast'', ''Auto_arima_forcasted''] \<and>
   map line_strokeDash (mark_line (df_melted (df_filtered example_table ''West''))) =
     [[1, 0], [1, 0], [5, 5], [5, 5]] \<and>
   take 2 (chart (df_filtered example_table ''West'')) = [Ci_band [], Lines (mark_line (df_melted west))]"
proof -
  have ne: "west \<noteq> []" by (simp add: west_def)
  have c: "df_ci west = []" by (simp add: west_def eval_transformer)
  from forecast_lines_dashed [OF filtered_west [symmetric] refl] ne lines_west c show ?thesis
    by (simp add: filtered_west)
qed

subsection \<open>The loader\<close>

lemma convert_Date_Inl:
  "convert_Date to_datetime df = Inl e \<longleftrightarrow>
     (''Date'' \<notin> set (columns df) \<and> e = KeyError ''Date'') \<or>
     (''Date'' \<in> set (columns df) \<and> to_datetime (map Date (rows df)) = Inl e)"
  by (auto simp: convert_Date_def get_Date_def split: sum.splits)

lemma convert_Date_Inr:
  "convert_Date to_datetime df = Inr (out, msgs) \<longleftrightarrow>
     ''Date'' \<in> set (columns df) \<and>
     (\<exists>ds. to_datetime (map Date (rows df)) = Inr ds \<and> out = set_Date df ds) \<and> msgs = []"
  by (auto simp: convert_Date_def get_Date_def split: sum.splits)

lemma empty_set_Date: "empty (set_Date df ds) \<longleftrightarrow> empty df"
  by (cases "rows df") (simp_all add: empty_def set_Date_def)

lemma empty_with_Date: "''Date'' \<in> set (columns df) \<Longrightarrow> empty df \<longleftrightarrow> rows df = []"
  by (auto simp: empty_def)

lemma empty_DataFrame: "empty DataFrame"
  by (simp add: empty_def DataFrame_def)

lemma load_data_Utf8:
  "read_csv p Utf8 = Inr df \<Longrightarrow> load_data read_csv to_datetime p = convert_Date to_datetime df"
  by (simp add: load_data_def)

lemma load_data_retry:
  "read_csv p Utf8 = Inl UnicodeDecodeError \<Longrightarrow>
     load_data read_csv to_datetime p =
       (case read_csv p Latin1 of
          Inr df \<Rightarrow> convert_Date to_datetime df
        | Inl e \<Rightarrow> Inr (DataFrame, [e]))"
  by (simp add: load_data_def)

lemma load_data_raise:
  "read_csv p Utf8 = Inl e \<Longrightarrow> e \<noteq> UnicodeDecodeError \<Longrightarrow>
     load_data read_csv to_datetime p = Inl e"
  by (cases e) (simp_all add: load_data_def)

text \<open>
  The paths the handlers cover. When the read with the default encoding fails with a
  decoding error, the loader reads once more with latin-1; whatever exception that second
  read raises, the loader shows the error message and returns the empty frame. After a
  read that succeeded the loader returns what the conversion of the Date column gives,
  and that raises when the frame has no Date column or \<^verbatim>\<open>pd.to_datetime\<close>
  raises.
\<close>

lemma loader_retries_then_reports:
  "(read_csv p Utf8 = Inl UnicodeDecodeError \<longrightarrow>
      (\<forall>e. read_csv p Latin1 = Inl e \<longrightarrow>
         load_data read_csv to_datetime p = Inr (DataFrame, [e])) \<and>
      (\<forall>df. read_csv p Latin1 = Inr df \<longrightarrow>
         load_data read_csv to_datetime p = convert_Date to_datetime df)) \<and>
   (\<forall>df. read_csv p Utf8 = Inr df \<longrightarrow>
      load_data read_csv to_datetime p = convert_Date to_datetime df) \<and>
   (\<forall>df e. convert_Date to_datetime df = Inl e \<longleftrightarrow>
      (''Date'' \<notin> set (columns df) \<and> e = KeyError ''Date'') \<or>
      (''Date'' \<in> set (columns df) \<and> to_datetime (map Date (rows df)) = Inl e))"
  using convert_Date_Inl [of to_datetime]
  by (simp add: load_data_retry load_data_Utf8)

text \<open>
  C4, as the code has it. The loader returns a frame that is not empty exactly when the
  read with the default encoding succeeds, or fails with a decoding error and the read
  with latin-1 succeeds, and the frame read has a Date column that
  \<^verbatim>\<open>pd.to_datetime\<close> parses, and the frame has a row.
\<close>

theorem loader_nonempty_iff:
  "(\<exists>df msgs. load_data read_csv to_datetime p = Inr (df, msgs) \<and> \<not> empty df) \<longleftrightarrow>
   (\<exists>raw ds.
      (read_csv p Utf8 = Inr raw \<or>
       read_csv p Utf8 = Inl UnicodeDecodeError \<and> read_csv p Latin1 = Inr raw) \<and>
      ''Date'' \<in> set (columns raw) \<and>
      to_datetime (map Date (rows raw)) = Inr ds \<and>
      rows raw \<noteq> [])"
proof -
  have conv: "(\<exists>df msgs. convert_Date to_datetime raw = Inr (df, msgs) \<and> \<not> empty df) \<longleftrightarrow>
      (\<exists>ds. ''Date'' \<in> set (columns raw) \<and> to_datetime (map Date (rows raw)) = Inr ds \<and>
            rows raw \<noteq> [])" for raw :: "'a frame"
    by (auto simp: convert_Date_Inr empty_set_Date empty_with_Date)
  show ?thesis
  proof (cases "read_csv p Utf8")
    case (Inr raw)
    then show ?thesis using conv [of raw] by (simp add: load_data_Utf8)
  next
    case (Inl e)
    show ?thesis
    proof (cases "e = UnicodeDecodeError")
      case False
      with Inl show ?thesis by (simp add: load_data_raise)
    next
      case True
      show ?thesis
      proof (cases "read_csv p Latin1")
        case (Inr raw)
        with Inl True show ?thesis using conv [of raw] by (simp add: load_data_retry)
      next
        case l: (Inl e')
        with Inl True show ?thesis by (simp add: load_data_retry empty_DataFrame)
      qed
    qed
  qed
qed

lemma read_xlsx:
  "example_read_csv ''Prophet_All_Areas_Forecast.xlsx'' Utf8 = Inl UnicodeDecodeError"
  "example_read_csv ''Prophet_All_Areas_Forecast.xlsx'' Latin1 = Inl ParserError"
  by (simp_all add: example_read_csv_def)

lemma read_latin1:
  "example_read_csv ''latin1.csv'' Utf8 = Inl UnicodeDecodeError"
  "example_read_csv ''latin1.csv'' Latin1 =
     Inr \<lparr>columns = column_names, rows = [raw_row ''North'' ''2024-02-01'']\<rparr>"
  by (simp_all add: example_read_csv_def)

lemma read_good:
  "example_read_csv ''good.csv'' Utf8 =
     Inr \<lparr>columns = column_names, rows = [raw_row ''North'' ''2024-01-01'']\<rparr>"
  by (simp add: example_read_csv_def)

lemma read_bad_date:
  "example_read_csv ''bad_date.csv'' Utf8 =
     Inr \<lparr>columns = column_names, rows = [raw_row ''North'' ''soon'']\<rparr>"
  by (simp add: example_read_csv_def)

lemma read_header_only:
  "example_read_csv ''header_only.csv'' Utf8 = Inr \<lparr>columns = column_names, rows = []\<rparr>"
  by (simp add: example_read_csv_def)

lemma convert_examples:
  "convert_Date example_to_datetime
     \<lparr>columns = column_names, rows = [raw_row ''North'' ''2024-01-01'']\<rparr> =
     Inr (\<lparr>columns = column_names, rows = [with_Date (raw_row ''North'' ''2024-01-01'') (Ts 0)]\<rparr>, [])"
  "convert_Date example_to_datetime
     \<lparr>columns = column_names, rows = [raw_row ''North'' ''2024-02-01'']\<rparr> =
     Inr (\<lparr>columns = column_names, rows = [with_Date (raw_row ''North'' ''2024-02-01'') (Ts 31)]\<rparr>, [])"
  "convert_Date example_to_datetime
     \<lparr>columns = column_names, rows = [raw_row ''North'' ''soon'']\<rparr> = Inl ValueError"
  "convert_Date example_to_datetime \<lparr>columns = column_names, rows = []\<rparr> =
     Inr (\<lparr>columns = column_names, rows = []\<rparr>, [])"
  by (simp_all add: convert_Date_def get_Date_def set_Date_def example_to_datetime_def
      example_date_def raw_row_def column_names_def)

text \<open>
  C2. No exception should leave the loader: a failure that is not a decoding failure
  should give the error message and the empty frame. The code does so for the second
  read only, under \<^verbatim>\<open>except Exception\<close> in line 18. A failure of the first read
  that is not a decoding error meets no handler: for a missing file
  \<^verbatim>\<open>FileNotFoundError\<close> leaves the loader, although the message of line 19 asks to
  check the file path. On the file the script names, where the first read fails in
  decoding and the second in parsing, the same loader shows the message and returns the
  empty frame.
\<close>

theorem loader_raises_on_missing_file:
  "example_read_csv ''nowhere.csv'' Utf8 = Inl FileNotFoundError \<and>
   load_data example_read_csv example_to_datetime ''nowhere.csv'' = Inl FileNotFoundError \<and>
   example_read_csv ''Prophet_All_Areas_Forecast.xlsx'' Utf8 = Inl UnicodeDecodeError \<and>
   example_read_csv ''Prophet_All_Areas_Forecast.xlsx'' Latin1 = Inl ParserError \<and>
   load_data example_read_csv example_to_datetime ''Prophet_All_Areas_Forecast.xlsx'' =
     Inr (DataFrame, [ParserError])"
  by (simp add: load_data_def example_read_csv_def)

text \<open>
  The file the script names, read as text: neither encoding gives a table, the page shows
  the error message and nothing else.
\<close>

lemma script_xlsx: "script example_read_csv example_to_datetime choice = Inr [St_error ParserError]"
  by (simp add: script_def FILE_NAME_def load_data_def example_read_csv_def page_def empty_def
      DataFrame_def)

text \<open>The covered paths on the example files.\<close>

lemma loader_retries_examples:
  "example_read_csv ''Prophet_All_Areas_Forecast.xlsx'' Utf8 = Inl UnicodeDecodeError \<and>
   example_read_csv ''Prophet_All_Areas_Forecast.xlsx'' Latin1 = Inl ParserError \<and>
   load_data example_read_csv example_to_datetime ''Prophet_All_Areas_Forecast.xlsx'' =
     Inr (DataFrame, [ParserError]) \<and>
   example_read_csv ''latin1.csv'' Utf8 = Inl UnicodeDecodeError \<and>
   load_data example_read_csv example_to_datetime ''latin1.csv'' =
     Inr (\<lparr>columns = column_names,
           rows = [with_Date (raw_row ''North'' ''2024-02-01'') (Ts 31)]\<rparr>, []) \<and>
   load_data example_read_csv example_to_datetime ''good.csv'' =
     Inr (\<lparr>columns = column_names,
           rows = [with_Date (raw_row ''North'' ''2024-01-01'') (Ts 0)]\<rparr>, [])"
proof -
  note x = loader_retries_then_reports
    [of example_read_csv "''Prophet_All_Areas_Forecast.xlsx''" example_to_datetime]
  note l = loader_retries_then_reports [of example_read_csv "''latin1.csv''" example_to_datetime]
  note g = loader_retries_then_reports [of example_read_csv "''good.csv''" example_to_datetime]
  have "load_data example_read_csv example_to_datetime ''Prophet_All_Areas_Forecast.xlsx'' =
          Inr (DataFrame, [ParserError])"
    using x read_xlsx by blast
  moreover have "load_data example_read_csv example_to_datetime ''latin1.csv'' =
      convert_Date example_to_datetime
        \<lparr>columns = column_names, rows = [raw_row ''North'' ''2024-02-01'']\<rparr>"
    using l read_latin1 by blast
  moreover have "load_data example_read_csv example_to_datetime ''good.csv'' =
      convert_Date example_to_datetime
        \<lparr>columns = column_names, rows = [raw_row ''North'' ''2024-01-01'']\<rparr>"
    using g read_good by blast
  ultimately show ?thesis by (simp add: read_xlsx read_latin1 convert_examples)
qed

text \<open>
  A file with a date that does not parse: the exception of \<^verbatim>\<open>pd.to_datetime\<close>
  leaves the loader, lines 22 to 24 being outside both \<^verbatim>\<open>try\<close> blocks.
\<close>

lemma load_data_bad_date:
  "example_read_csv ''bad_date.csv'' Utf8 =
     Inr \<lparr>columns = column_names, rows = [raw_row ''North'' ''soon'']\<rparr> \<and>
   example_to_datetime [''soon''] = Inl ValueError \<and>
   load_data example_read_csv example_to_datetime ''bad_date.csv'' = Inl ValueError"
  by (simp add: read_bad_date load_data_Utf8 convert_examples)
    (simp add: example_to_datetime_def example_date_def)

theorem loader_nonempty_iff_witness:
  "load_data example_read_csv example_to_datetime ''good.csv'' =
     Inr (\<lparr>columns = column_names,
           rows = [with_Date (raw_row ''North'' ''2024-01-01'') (Ts 0)]\<rparr>, []) \<and>
   \<not> empty \<lparr>columns = column_names,
              rows = [with_Date (raw_row ''North'' ''2024-01-01'') (Ts 0)]\<rparr> \<and>
   (\<exists>raw ds.
      (example_read_csv ''good.csv'' Utf8 = Inr raw \<or>
       example_read_csv ''good.csv'' Utf8 = Inl UnicodeDecodeError \<and>
       example_read_csv ''good.csv'' Latin1 = Inr raw) \<and>
      ''Date'' \<in> set (columns raw) \<and>
      example_to_datetime (map Date (rows raw)) = Inr ds \<and> rows raw \<noteq> [])"
proof -
  have l: "load_data example_read_csv example_to_datetime ''good.csv'' =
     Inr (\<lparr>columns = column_names,
           rows = [with_Date (raw_row ''North'' ''2024-01-01'') (Ts 0)]\<rparr>, [])"
    by (simp add: read_good load_data_Utf8 convert_examples)
  have e: "\<not> empty \<lparr>columns = column_names,
              rows = [with_Date (raw_row ''North'' ''2024-01-01'') (Ts 0)]\<rparr>"
    by (simp add: empty_def column_names_def)
  from l e have "\<exists>df msgs.
      load_data example_read_csv example_to_datetime ''good.csv'' = Inr (df, msgs) \<and> \<not> empty df"
    by blast
  with loader_nonempty_iff [of example_read_csv example_to_datetime "''good.csv''"] l e
  show ?thesis by blast
qed

text \<open>
  C4 as the spec has it fails on a file with a header line and no data: the read
  succeeds, the Date column is there and parses, and the frame returned is empty.
\<close>

theorem loader_nonempty_iff_counterexample:
  "example_read_csv ''header_only.csv'' Utf8 = Inr \<lparr>columns = column_names, rows = []\<rparr> \<and>
   ''Date'' \<in> set column_names \<and>
   example_to_datetime [] = Inr [] \<and>
   load_data example_read_csv example_to_datetime ''header_only.csv'' =
     Inr (\<lparr>columns = column_names, rows = []\<rparr>, []) \<and>
   empty \<lparr>columns = column_names, rows = []\<rparr>"
  by (simp add: read_header_only load_data_Utf8 convert_examples)
    (simp add: empty_def column_names_def example_to_datetime_def)

subsection \<open>The page without a forecast\<close>

lemma page_chart:
  "\<not> empty df \<Longrightarrow> selected_area (rows df) choice = Some a \<Longrightarrow> a \<noteq> [] \<Longrightarrow>
     page df choice =
       [Title, Altair_chart (chart (df_filtered (rows df) a)), Dataframe (df_filtered (rows df) a)]"
  by (simp add: page_def)

text \<open>
  C5. The rows of the confidence band are the filtered rows with a forecast, in their
  order. When no filtered row has a forecast, the band is drawn from no rows, so it
  shades nothing, and the chart has no marker layer; the page then shows the title, this
  chart and the table of the filtered rows, and no warning.
\<close>

theorem band_rows_have_forecast:
  assumes "dff = df_filtered (rows df) a"
  shows "df_ci dff = filter (\<lambda>r. Prophet_Forecast r \<noteq> None) dff \<and>
         ((\<forall>r \<in> set dff. Prophet_Forecast r = None) \<longrightarrow>
            df_ci dff = [] \<and>
            forecast_start_date dff = None \<and>
            chart dff = [Ci_band [], Lines (mark_line (df_melted dff))] \<and>
            (\<not> empty df \<and> selected_area (rows df) choice = Some a \<and> a \<noteq> [] \<longrightarrow>
               page df choice =
                 [Title, Altair_chart [Ci_band [], Lines (mark_line (df_melted dff))], Dataframe dff]))"
proof -
  have ci: "df_ci dff = []" if "\<forall>r \<in> set dff. Prophet_Forecast r = None"
    using that by (simp add: df_ci_def notna_def)
  have c: "chart dff = [Ci_band [], Lines (mark_line (df_melted dff))]"
    if "\<forall>r \<in> set dff. Prophet_Forecast r = None"
    using that ci forecast_start_date_None [of dff] by (simp add: chart_None)
  have p: "page df choice = [Title, Altair_chart [Ci_band [], Lines (mark_line (df_melted dff))], Dataframe dff]"
    if "\<forall>r \<in> set dff. Prophet_Forecast r = None"
      and "\<not> empty df" "selected_area (rows df) choice = Some a" "a \<noteq> []"
    using page_chart [OF that(2-4)] c [OF that(1)] assms by simp
  have f: "df_ci dff = filter (\<lambda>r. Prophet_Forecast r \<noteq> None) dff"
    by (simp add: df_ci_def notna_def)
  show ?thesis
    using f ci c p forecast_start_date_None [of dff] by blast
qed

theorem band_rows_have_forecast_witness:
  "Prophet_Forecast (df_filtered (rows example_frame) ''West'' ! 0) = None \<and>
   length (df_filtered (rows example_frame) ''West'') = 1 \<and>
   \<not> empty example_frame \<and>
   selected_area (rows example_frame) (Some 2) = Some ''West'' \<and>
   df_ci (df_filtered (rows example_frame) ''West'') = [] \<and>
   forecast_start_date (df_filtered (rows example_frame) ''West'') = None \<and>
   chart (df_filtered (rows example_frame) ''West'') = [Ci_band [], Lines (mark_line (df_melted west))] \<and>
   page example_frame (Some 2) =
     [Title, Altair_chart [Ci_band [], Lines (mark_line (df_melted west))], Dataframe west]"
proof -
  have r: "rows example_frame = example_table" by (simp add: example_frame_def)
  have w: "west = df_filtered (rows example_frame) ''West''" by (simp add: r filtered_west)
  have h: "\<forall>r \<in> set west. Prophet_Forecast r = None"
    by (simp add: west_def example_row_def)
  have e: "\<not> empty example_frame"
    by (simp add: empty_def example_frame_def example_table_def)
  have s: "selected_area (rows example_frame) (Some 2) = Some ''West''"
    by (simp add: r selected_area_def selectbox_def areas_example)
  have n: "''West'' \<noteq> []" by simp
  have "df_ci west = [] \<and> forecast_start_date west = None \<and>
        chart west = [Ci_band [], Lines (mark_line (df_melted west))] \<and>
        page example_frame (Some 2) =
          [Title, Altair_chart [Ci_band [], Lines (mark_line (df_melted west))], Dataframe west]"
    using band_rows_have_forecast [OF w, of "Some 2"] h e s n by blast
  moreover have "Prophet_Forecast (west ! 0) = None" "length west = 1"
    by (simp_all add: west_def example_row_def)
  ultimately show ?thesis using e s by (simp add: w [symmetric])
qed

subsection \<open>The transformer as a function of table and area\<close>

lemma transformer_heap:
  "fst (transformer h df a) =
     h @ [Wide (df_filtered (wide_at h df) a), Wide (df_filtered (wide_at h df) a),
          Long (df_melted (df_filtered (wide_at h df) a)),
          Wide (df_ci (df_filtered (wide_at h df) a))]"
  by (simp add: transformer_def new_def wide_at_def nth_append)

lemma transformer_output:
  "contents (fst (transformer h df a)) (snd (transformer h df a)) =
     (df_filtered (wide_at h df) a,
      forecast_start_date (df_filtered (wide_at h df) a),
      df_melted (df_filtered (wide_at h df) a),
      df_ci (df_filtered (wide_at h df) a))"
  by (simp add: transformer_def new_def wide_at_def long_at_def contents_def nth_append)

lemma wide_at_append: "p < length h \<Longrightarrow> wide_at (h @ h') p = wide_at h p"
  by (simp add: wide_at_def nth_append)

text \<open>
  C6. What the transformer makes (the filtered rows, the forecast start date, the long
  rows and the rows of the confidence band) is a function of the rows of the loaded table
  and of the area alone. Run a second time, on the store the first run left, it makes
  the same again. Every frame that was in the store before a run, the loaded table among
  them, is the same after it.
\<close>

theorem transformer_pure:
  assumes "df < length h"
    and "transformer h df a = (h1, out1)"
    and "transformer h1 df a = (h2, out2)"
  shows "contents h1 out1 =
           (df_filtered (wide_at h df) a,
            forecast_start_date (df_filtered (wide_at h df) a),
            df_melted (df_filtered (wide_at h df) a),
            df_ci (df_filtered (wide_at h df) a)) \<and>
         contents h2 out2 = contents h1 out1 \<and>
         take (length h) h1 = h \<and> take (length h) h2 = h \<and>
         wide_at h1 df = wide_at h df \<and> wide_at h2 df = wide_at h df"
proof -
  have h1: "h1 = fst (transformer h df a)" and o1: "out1 = snd (transformer h df a)"
    using assms(2) by simp_all
  have h2: "h2 = fst (transformer h1 df a)" and o2: "out2 = snd (transformer h1 df a)"
    using assms(3) by simp_all
  have ext1: "\<exists>xs. h1 = h @ xs" unfolding h1 transformer_heap by blast
  then obtain xs where xs: "h1 = h @ xs" ..
  have ext2: "\<exists>ys. h2 = h1 @ ys" unfolding h2 transformer_heap by blast
  then obtain ys where ys: "h2 = h1 @ ys" ..
  have w1: "wide_at h1 df = wide_at h df"
    using assms(1) by (simp add: xs wide_at_append)
  have w2: "wide_at h2 df = wide_at h df"
    using assms(1) by (simp add: ys xs wide_at_append)
  have a: "contents h1 out1 =
           (df_filtered (wide_at h df) a,
            forecast_start_date (df_filtered (wide_at h df) a),
            df_melted (df_filtered (wide_at h df) a),
            df_ci (df_filtered (wide_at h df) a))"
    unfolding h1 o1 by (rule transformer_output)
  have b: "contents h2 out2 = contents h1 out1"
    unfolding a unfolding h2 o2 transformer_output w1 ..
  show ?thesis using a b w1 w2 by (simp add: xs ys)
qed

theorem transformer_pure_witness:
  "(0::nat) < length [Wide example_table] \<and>
   contents (fst (transformer [Wide example_table] 0 ''North''))
          (snd (transformer [Wide example_table] 0 ''North'')) =
     (north, Some (Ts 2), df_melted north, df_ci north) \<and>
   contents (fst (transformer (fst (transformer [Wide example_table] 0 ''North'')) 0 ''North''))
          (snd (transformer (fst (transformer [Wide example_table] 0 ''North'')) 0 ''North'')) =
     (north, Some (Ts 2), df_melted north, df_ci north) \<and>
   wide_at (fst (transformer (fst (transformer [Wide example_table] 0 ''North'')) 0 ''North'')) 0 =
     example_table"
proof -
  have l: "(0::nat) < length [Wide example_table]" by simp
  have w: "wide_at [Wide example_table] 0 = example_table" by (simp add: wide_at_def)
  from transformer_pure [OF l prod.collapse [symmetric] prod.collapse [symmetric], of "''North''"]
  show ?thesis by (simp add: w filtered_north start_north)
qed

end
